theory Spec2Isabelle
  imports Main "HOL-Library.AList"
begin

section \<open>JavaScript strings\<close>

text \<open>
  A JavaScript string is a sequence of 16-bit code units. A code unit is modelled by its
  number and a string by the list of its code units; \<open>js\<close> turns a literal of ASCII
  characters into the string. \<open>String.prototype.trim\<close> removes at both ends the code
  points that ECMAScript calls WhiteSpace and LineTerminator, each of which is one code
  unit, and \<open>includes\<close> is the substring test on code units.
  \<open>String.prototype.toLowerCase\<close> follows the Unicode case tables, which are not part
  of this repository: a definition that lower-cases takes the function \<open>toLowerCase\<close>
  as an argument, and a theorem about it holds for every function in its place.
\<close>

type_synonym jsstring = "nat list"

definition js :: "string \<Rightarrow> jsstring" where
  "js s = map of_char s"

definition isWhiteSpace :: "nat \<Rightarrow> bool" where
  "isWhiteSpace c =
     (c \<in> set [0x0009, 0x000A, 0x000B, 0x000C, 0x000D, 0x0020, 0x00A0, 0x1680,
                0x2000, 0x2001, 0x2002, 0x2003, 0x2004, 0x2005, 0x2006, 0x2007, 0x2008,
                0x2009, 0x200A, 0x2028, 0x2029, 0x202F, 0x205F, 0x3000, 0xFEFF])"

definition trim :: "jsstring \<Rightarrow> jsstring" where
  "trim s = rev (dropWhile isWhiteSpace (rev (dropWhile isWhiteSpace s)))"

fun str_includes :: "'a list \<Rightarrow> 'a list \<Rightarrow> bool" where
  "str_includes [] q = (q = [])"
| "str_includes (c # s) q = (take (length q) (c # s) = q \<or> str_includes s q)"

text \<open>\<open>Array.prototype.indexOf\<close>: the first index of an element, \<open>-1\<close> when absent.\<close>

fun indexOf :: "'a list \<Rightarrow> 'a \<Rightarrow> int" where
  "indexOf [] x = - 1"
| "indexOf (y # ys) x =
     (if y = x then 0 else (let r = indexOf ys x in if r < 0 then - 1 else r + 1))"

text \<open>
  \<open>Array.prototype.slice(start, end)\<close> on integer arguments: a negative index counts
  from the end, and both indices are clamped to the array.
\<close>

definition js_slice :: "'a list \<Rightarrow> int \<Rightarrow> int \<Rightarrow> 'a list" where
  "js_slice xs start end' =
     (let len = int (length xs);
          k = (if start < 0 then max (len + start) 0 else min start len);
          final = (if end' < 0 then max (len + end') 0 else min end' len)
      in take (nat (final - k)) (drop (nat k) xs))"

section \<open>JavaScript dates\<close>

text \<open>
  A \<open>Date\<close> is modelled by its time value, the number of milliseconds since the epoch.
  A time value is an integer of magnitude at most \<open>8.64e15\<close>; \<open>Invalid Date\<close> has no
  time value and is the \<open>None\<close> of \<open>Date_parse\<close>. The day and year arithmetic is the
  one of ECMAScript (Day, TimeWithinDay, DayFromYear, DaysInYear, MakeDay, MakeDate,
  TimeClip). \<open>toISOString\<close> writes \<open>YYYY-MM-DDTHH:mm:ss.sssZ\<close>, with a sign and six
  digits for a year outside 0..9999, and \<open>Date_parse\<close> reads the strings of that format
  (the other formats that \<open>new Date(string)\<close> accepts are not modelled and read as
  \<open>None\<close>). A \<open>fromJSON\<close> whose timestamp does not parse returns \<open>None\<close>: the code
  would build a record with an \<open>Invalid Date\<close>. The strings of this section are strings
  of ASCII characters, written as \<open>char\<close> lists.
\<close>

type_synonym Date = int


























section \<open>Data model\<close>

datatype InputType = Expression | Explanation | Image

record ExpressionInput =
  input_id :: jsstring
  input_type :: InputType
  input_content :: jsstring
  input_createdAt :: Date

record Suggestion =
  sug_id :: jsstring
  sug_inputId :: jsstring
  sug_candidates :: "jsstring list"
  sug_generatedAt :: Date

record Collection =
  col_id :: jsstring
  col_name :: jsstring
  col_createdAt :: Date

text \<open>The field maps that \<open>toJSON\<close> returns: timestamps are ISO strings.\<close>

record ExpressionInputJSON =
  ij_id :: jsstring
  ij_type :: InputType
  ij_content :: jsstring
  ij_createdAt :: jsstring

record SuggestionJSON =
  sj_id :: jsstring
  sj_inputId :: jsstring
  sj_candidates :: "jsstring list"
  sj_generatedAt :: jsstring


text \<open>
  The input and the suggestion that an entry embeds are objects with the fields of an
  input and of a suggestion. In an entry that the engine builds they are the records of
  the store, whose timestamp is a \<open>Date\<close>. In an entry that \<open>fromJSON\<close> builds from
  data read from JSON text they are the field maps of that text, whose timestamp is a
  string: \<open>Entry.fromJSON\<close> takes \<open>data.input\<close> and \<open>data.suggestion\<close> as they are.
\<close>

datatype InputSnapshot = InputObject ExpressionInput | InputData ExpressionInputJSON

datatype SuggestionSnapshot = SuggestionObject Suggestion | SuggestionData SuggestionJSON

fun inputContent :: "InputSnapshot \<Rightarrow> jsstring" where
  "inputContent (InputObject i) = input_content i"
| "inputContent (InputData d) = ij_content d"

fun suggestionCandidates :: "SuggestionSnapshot \<Rightarrow> jsstring list" where
  "suggestionCandidates (SuggestionObject s) = sug_candidates s"
| "suggestionCandidates (SuggestionData d) = sj_candidates d"

record Entry =
  entry_id :: jsstring
  entry_input :: InputSnapshot
  entry_suggestion :: SuggestionSnapshot
  entry_collectionId :: jsstring
  entry_tags :: "jsstring list"
  entry_savedAt :: Date


section \<open>The model classes\<close>

text \<open>
  Every constructor draws an identifier with \<open>uuidv4()\<close> when none (or an empty one) is
  given and reads the clock with \<open>new Date()\<close>. Both are arguments of the model: \<open>uuid\<close>
  is the identifier drawn and \<open>now\<close> the time read by this call.
\<close>

definition idOr :: "jsstring option \<Rightarrow> jsstring \<Rightarrow> jsstring" where
  "idOr i uuid = (case i of None \<Rightarrow> uuid | Some s \<Rightarrow> if s = [] then uuid else s)"

definition new_ExpressionInput ::
  "InputType \<Rightarrow> jsstring \<Rightarrow> jsstring option \<Rightarrow> jsstring \<Rightarrow> Date \<Rightarrow> ExpressionInput" where
  "new_ExpressionInput ty content i uuid now =
     \<lparr>input_id = idOr i uuid, input_type = ty, input_content = content, input_createdAt = now\<rparr>"



definition new_Suggestion ::
  "jsstring \<Rightarrow> jsstring list \<Rightarrow> jsstring option \<Rightarrow> jsstring \<Rightarrow> Date \<Rightarrow> Suggestion" where
  "new_Suggestion inputId candidates i uuid now =
     \<lparr>sug_id = idOr i uuid, sug_inputId = inputId, sug_candidates = candidates,
      sug_generatedAt = now\<rparr>"



definition new_Collection :: "jsstring \<Rightarrow> jsstring option \<Rightarrow> jsstring \<Rightarrow> Date \<Rightarrow> Collection" where
  "new_Collection name i uuid now = \<lparr>col_id = idOr i uuid, col_name = name, col_createdAt = now\<rparr>"



definition Collection_rename :: "Collection \<Rightarrow> jsstring \<Rightarrow> jsstring \<Rightarrow> Date \<Rightarrow> Collection" where
  "Collection_rename this newName uuid now = new_Collection newName (Some (col_id this)) uuid now"

definition new_Entry ::
  "InputSnapshot \<Rightarrow> SuggestionSnapshot \<Rightarrow> jsstring \<Rightarrow> jsstring list option \<Rightarrow> jsstring option
     \<Rightarrow> jsstring \<Rightarrow> Date \<Rightarrow> Entry" where
  "new_Entry input suggestion collectionId tags i uuid now =
     \<lparr>entry_id = idOr i uuid, entry_input = input, entry_suggestion = suggestion,
      entry_collectionId = collectionId,
      entry_tags = (case tags of None \<Rightarrow> [] | Some ts \<Rightarrow> ts), entry_savedAt = now\<rparr>"






definition Entry_hasTag :: "Entry \<Rightarrow> jsstring \<Rightarrow> bool" where
  "Entry_hasTag this tag = (tag \<in> set (entry_tags this))"

definition Entry_addTag :: "Entry \<Rightarrow> jsstring \<Rightarrow> jsstring \<Rightarrow> Date \<Rightarrow> Entry" where
  "Entry_addTag this tag uuid now =
     (if Entry_hasTag this tag then this
      else new_Entry (entry_input this) (entry_suggestion this) (entry_collectionId this)
             (Some (entry_tags this @ [tag])) (Some (entry_id this)) uuid now)"

definition Entry_removeTag :: "Entry \<Rightarrow> jsstring \<Rightarrow> jsstring \<Rightarrow> Date \<Rightarrow> Entry" where
  "Entry_removeTag this tag uuid now =
     (let newTags = filter (\<lambda>t. t \<noteq> tag) (entry_tags this)
      in new_Entry (entry_input this) (entry_suggestion this) (entry_collectionId this)
           (Some newTags) (Some (entry_id this)) uuid now)"

definition Entry_updateTags :: "Entry \<Rightarrow> jsstring list \<Rightarrow> jsstring \<Rightarrow> Date \<Rightarrow> Entry" where
  "Entry_updateTags this tags uuid now =
     new_Entry (entry_input this) (entry_suggestion this) (entry_collectionId this)
       (Some tags) (Some (entry_id this)) uuid now"

section \<open>The in-memory store\<close>

text \<open>
  Each of the four \<open>Map\<close>s is an association list in insertion order: \<open>set\<close>
  replaces the value of a key that is present in place and appends a new key at the end
  (\<open>AList.update\<close>), \<open>get\<close> is \<open>map_of\<close>, \<open>delete\<close> is \<open>AList.delete\<close>
  and \<open>values()\<close> lists the values in insertion order.
\<close>

record InMemoryStorage =
  inputs :: "(jsstring \<times> ExpressionInput) list"
  suggestions :: "(jsstring \<times> Suggestion) list"
  collections :: "(jsstring \<times> Collection) list"
  entries :: "(jsstring \<times> Entry) list"

record SearchOptions =
  query :: "jsstring option"
  collectionId :: "jsstring option"
  tags :: "jsstring list option"
  limit :: "int option"
  offset :: "int option"

text \<open>\<open>Partial<Collection>\<close>: every field may be absent.\<close>

record PartialCollection =
  p_id :: "jsstring option"
  p_name :: "jsstring option"
  p_createdAt :: "Date option"

definition mapValues :: "('k \<times> 'v) list \<Rightarrow> 'v list" where
  "mapValues m = map snd m"

definition InMemoryStorage_saveInput :: "InMemoryStorage \<Rightarrow> ExpressionInput \<Rightarrow> InMemoryStorage" where
  "InMemoryStorage_saveInput this input =
     this\<lparr>inputs := AList.update (input_id input) input (inputs this)\<rparr>"

definition InMemoryStorage_getInput :: "InMemoryStorage \<Rightarrow> jsstring \<Rightarrow> ExpressionInput option" where
  "InMemoryStorage_getInput this i = map_of (inputs this) i"

definition InMemoryStorage_saveSuggestion :: "InMemoryStorage \<Rightarrow> Suggestion \<Rightarrow> InMemoryStorage" where
  "InMemoryStorage_saveSuggestion this suggestion =
     this\<lparr>suggestions := AList.update (sug_id suggestion) suggestion (suggestions this)\<rparr>"

definition InMemoryStorage_getSuggestion :: "InMemoryStorage \<Rightarrow> jsstring \<Rightarrow> Suggestion option" where
  "InMemoryStorage_getSuggestion this i = map_of (suggestions this) i"

definition InMemoryStorage_saveCollection :: "InMemoryStorage \<Rightarrow> Collection \<Rightarrow> InMemoryStorage" where
  "InMemoryStorage_saveCollection this collection =
     this\<lparr>collections := AList.update (col_id collection) collection (collections this)\<rparr>"

definition InMemoryStorage_getCollection :: "InMemoryStorage \<Rightarrow> jsstring \<Rightarrow> Collection option" where
  "InMemoryStorage_getCollection this i = map_of (collections this) i"

definition InMemoryStorage_listCollections :: "InMemoryStorage \<Rightarrow> Collection list" where
  "InMemoryStorage_listCollections this = sort_key col_createdAt (mapValues (collections this))"

definition InMemoryStorage_saveEntry :: "InMemoryStorage \<Rightarrow> Entry \<Rightarrow> InMemoryStorage" where
  "InMemoryStorage_saveEntry this entry =
     this\<lparr>entries := AList.update (entry_id entry) entry (entries this)\<rparr>"

definition InMemoryStorage_getEntry :: "InMemoryStorage \<Rightarrow> jsstring \<Rightarrow> Entry option" where
  "InMemoryStorage_getEntry this i = map_of (entries this) i"

text \<open>
  The comparator \<open>b.savedAt.getTime() - a.savedAt.getTime()\<close> orders by descending
  \<open>savedAt\<close>; \<open>Array.prototype.sort\<close> is stable, as \<open>sort_key\<close> is.
\<close>

definition sortMostRecentFirst :: "Entry list \<Rightarrow> Entry list" where
  "sortMostRecentFirst es = sort_key (\<lambda>e. - entry_savedAt e) es"

definition InMemoryStorage_listEntries :: "InMemoryStorage \<Rightarrow> jsstring \<Rightarrow> Entry list" where
  "InMemoryStorage_listEntries this cid =
     sortMostRecentFirst (filter (\<lambda>entry. entry_collectionId entry = cid) (mapValues (entries this)))"

definition InMemoryStorage_deleteEntry :: "InMemoryStorage \<Rightarrow> jsstring \<Rightarrow> InMemoryStorage" where
  "InMemoryStorage_deleteEntry this entryId =
     this\<lparr>entries := AList.delete entryId (entries this)\<rparr>"

text \<open>The filter by query of \<open>searchEntries\<close>, with \<open>q\<close> the lowercased query.\<close>

definition queryFilter :: "(jsstring \<Rightarrow> jsstring) \<Rightarrow> jsstring \<Rightarrow> Entry \<Rightarrow> bool" where
  "queryFilter toLowerCase q entry =
     (if str_includes (toLowerCase (inputContent (entry_input entry))) q then True
      else if list_ex (\<lambda>candidate. str_includes (toLowerCase candidate) q)
                (suggestionCandidates (entry_suggestion entry)) then True
      else if list_ex (\<lambda>tag. str_includes (toLowerCase tag) q) (entry_tags entry) then True
      else False)"

definition InMemoryStorage_searchEntries ::
  "(jsstring \<Rightarrow> jsstring) \<Rightarrow> InMemoryStorage \<Rightarrow> SearchOptions \<Rightarrow> Entry list" where
  "InMemoryStorage_searchEntries toLowerCase this options =
     (let results = mapValues (entries this);
          results = (case collectionId options of
                       None \<Rightarrow> results
                     | Some cid \<Rightarrow>
                         if cid = [] then results
                         else filter (\<lambda>entry. entry_collectionId entry = cid) results);
          results = (case query options of
                       None \<Rightarrow> results
                     | Some q \<Rightarrow>
                         if q = [] then results
                         else filter (queryFilter toLowerCase (toLowerCase q)) results);
          results = (case tags options of
                       None \<Rightarrow> results
                     | Some ts \<Rightarrow>
                         if 0 < length ts
                         then filter (\<lambda>entry. list_all (\<lambda>tag. tag \<in> set (entry_tags entry)) ts) results
                         else results);
          results = sortMostRecentFirst results;
          offset' = (case offset options of None \<Rightarrow> 0 | Some n \<Rightarrow> n);
          limit' = (case limit options of
                      None \<Rightarrow> int (length results)
                    | Some n \<Rightarrow> if n = 0 then int (length results) else n)
      in js_slice results offset' (offset' + limit'))"

datatype error =
    EmptyContent
  | EmptyName
  | NotFound string jsstring
  | Mismatch
  | GenerationFailed jsstring

text \<open>The message of the \<open>Error\<close> that each error value stands for.\<close>

fun message :: "error \<Rightarrow> jsstring" where
  "message EmptyContent = js ''Input content cannot be empty''"
| "message EmptyName = js ''Collection name cannot be empty''"
| "message (NotFound kind i) = js kind @ js '' with id '' @ i @ js '' not found''"
| "message Mismatch = js ''Suggestion does not belong to the specified input''"
| "message (GenerationFailed cause) = js ''Failed to generate suggestions: '' @ cause"

definition InMemoryStorage_updateCollection ::
  "InMemoryStorage \<Rightarrow> jsstring \<Rightarrow> PartialCollection \<Rightarrow> (error + Collection) \<times> InMemoryStorage" where
  "InMemoryStorage_updateCollection this i updates =
     (case map_of (collections this) i of
        None \<Rightarrow> (Inl (NotFound ''Collection'' i), this)
      | Some existing \<Rightarrow>
          (let updated = \<lparr>col_id = col_id existing,
                          col_name = (case p_name updates of None \<Rightarrow> col_name existing | Some n \<Rightarrow> n),
                          col_createdAt = col_createdAt existing\<rparr>
           in (Inr updated, this\<lparr>collections := AList.update i updated (collections this)\<rparr>)))"

section \<open>The engine\<close>

text \<open>
  The engine holds a provider and a store. The provider is a function of the input that
  returns the candidates or throws; \<open>Inl\<close> carries the thrown value written as a string.
  An operation that writes returns its result and the engine after the call; a thrown
  \<open>Error\<close> is an \<open>Inl\<close> result. An operation that constructs a record takes the
  identifier and the time that the constructor draws.
\<close>

record VocaEngine =
  llmProvider :: "ExpressionInput \<Rightarrow> jsstring + jsstring list"
  storage :: InMemoryStorage
  defaultSuggestionCount :: int

definition VocaEngine_addInput ::
  "VocaEngine \<Rightarrow> InputType \<Rightarrow> jsstring \<Rightarrow> jsstring \<Rightarrow> Date \<Rightarrow> (error + ExpressionInput) \<times> VocaEngine" where
  "VocaEngine_addInput this ty content uuid now =
     (if content = [] \<or> length (trim content) = 0 then (Inl EmptyContent, this)
      else let input = new_ExpressionInput ty (trim content) None uuid now
           in (Inr input, this\<lparr>storage := InMemoryStorage_saveInput (storage this) input\<rparr>))"

definition VocaEngine_generateSuggestions ::
  "VocaEngine \<Rightarrow> jsstring \<Rightarrow> jsstring \<Rightarrow> Date \<Rightarrow> (error + Suggestion) \<times> VocaEngine" where
  "VocaEngine_generateSuggestions this inputId uuid now =
     (case InMemoryStorage_getInput (storage this) inputId of
        None \<Rightarrow> (Inl (NotFound ''Input'' inputId), this)
      | Some input \<Rightarrow>
          (case llmProvider this input of
             Inl thrown \<Rightarrow> (Inl (GenerationFailed thrown), this)
           | Inr candidates \<Rightarrow>
               if length candidates = 0
               then (Inl (GenerationFailed (js ''Error: '' @ js ''No suggestions generated'')), this)
               else let suggestion = new_Suggestion inputId candidates None uuid now
                    in (Inr suggestion,
                        this\<lparr>storage := InMemoryStorage_saveSuggestion (storage this) suggestion\<rparr>)))"

definition VocaEngine_createCollection ::
  "VocaEngine \<Rightarrow> jsstring \<Rightarrow> jsstring \<Rightarrow> Date \<Rightarrow> (error + Collection) \<times> VocaEngine" where
  "VocaEngine_createCollection this name uuid now =
     (if name = [] \<or> length (trim name) = 0 then (Inl EmptyName, this)
      else let collection = new_Collection (trim name) None uuid now
           in (Inr collection,
               this\<lparr>storage := InMemoryStorage_saveCollection (storage this) collection\<rparr>))"

definition VocaEngine_listCollections :: "VocaEngine \<Rightarrow> Collection list" where
  "VocaEngine_listCollections this = InMemoryStorage_listCollections (storage this)"

text \<open>
  The tags of \<open>saveEntry\<close> and \<open>updateEntryTags\<close>: trimmed, the empty ones dropped, and
  an element kept when \<open>indexOf\<close> finds it at its own index.
\<close>

definition cleanTags :: "jsstring list \<Rightarrow> jsstring list" where
  "cleanTags ts =
     (let arr = filter (\<lambda>tag. 0 < length tag) (map trim ts)
      in map snd (filter (\<lambda>(index, tag). indexOf arr tag = int index) (enumerate 0 arr)))"

definition VocaEngine_saveEntry ::
  "VocaEngine \<Rightarrow> jsstring \<Rightarrow> jsstring \<Rightarrow> jsstring \<Rightarrow> jsstring list option \<Rightarrow> jsstring \<Rightarrow> Date
     \<Rightarrow> (error + Entry) \<times> VocaEngine" where
  "VocaEngine_saveEntry this inputId suggestionId cid ts uuid now =
     (case InMemoryStorage_getInput (storage this) inputId of
        None \<Rightarrow> (Inl (NotFound ''Input'' inputId), this)
      | Some input \<Rightarrow>
     (case InMemoryStorage_getSuggestion (storage this) suggestionId of
        None \<Rightarrow> (Inl (NotFound ''Suggestion'' suggestionId), this)
      | Some suggestion \<Rightarrow>
     (case InMemoryStorage_getCollection (storage this) cid of
        None \<Rightarrow> (Inl (NotFound ''Collection'' cid), this)
      | Some collection \<Rightarrow>
          if sug_inputId suggestion \<noteq> inputId then (Inl Mismatch, this)
          else let cleaned = (case ts of Some l \<Rightarrow> cleanTags l | None \<Rightarrow> []);
                   entry = new_Entry (InputObject input) (SuggestionObject suggestion) cid (Some cleaned)
                             None uuid now
               in (Inr entry, this\<lparr>storage := InMemoryStorage_saveEntry (storage this) entry\<rparr>))))"

definition VocaEngine_listEntries :: "VocaEngine \<Rightarrow> jsstring \<Rightarrow> error + Entry list" where
  "VocaEngine_listEntries this cid =
     (case InMemoryStorage_getCollection (storage this) cid of
        None \<Rightarrow> Inl (NotFound ''Collection'' cid)
      | Some collection \<Rightarrow> Inr (InMemoryStorage_listEntries (storage this) cid))"

definition VocaEngine_deleteEntry :: "VocaEngine \<Rightarrow> jsstring \<Rightarrow> (error + unit) \<times> VocaEngine" where
  "VocaEngine_deleteEntry this entryId =
     (case InMemoryStorage_getEntry (storage this) entryId of
        None \<Rightarrow> (Inl (NotFound ''Entry'' entryId), this)
      | Some entry \<Rightarrow>
          (Inr (), this\<lparr>storage := InMemoryStorage_deleteEntry (storage this) entryId\<rparr>))"

definition VocaEngine_searchEntries ::
  "(jsstring \<Rightarrow> jsstring) \<Rightarrow> VocaEngine \<Rightarrow> jsstring \<Rightarrow> jsstring \<Rightarrow> error + Entry list" where
  "VocaEngine_searchEntries toLowerCase this cid q =
     (if q = [] \<or> length (trim q) = 0 then VocaEngine_listEntries this cid
      else case InMemoryStorage_getCollection (storage this) cid of
             None \<Rightarrow> Inl (NotFound ''Collection'' cid)
           | Some collection \<Rightarrow>
               Inr (InMemoryStorage_searchEntries toLowerCase (storage this)
                      \<lparr>query = Some (trim q), collectionId = Some cid, tags = None,
                       limit = None, offset = None\<rparr>))"

definition VocaEngine_renameCollection ::
  "VocaEngine \<Rightarrow> jsstring \<Rightarrow> jsstring \<Rightarrow> (error + Collection) \<times> VocaEngine" where
  "VocaEngine_renameCollection this cid newName =
     (if newName = [] \<or> length (trim newName) = 0 then (Inl EmptyName, this)
      else case InMemoryStorage_getCollection (storage this) cid of
             None \<Rightarrow> (Inl (NotFound ''Collection'' cid), this)
           | Some collection \<Rightarrow>
               (let (r, st) = InMemoryStorage_updateCollection (storage this) cid
                                \<lparr>p_id = None, p_name = Some (trim newName), p_createdAt = None\<rparr>
                in (r, this\<lparr>storage := st\<rparr>)))"

definition VocaEngine_updateEntryTags ::
  "VocaEngine \<Rightarrow> jsstring \<Rightarrow> jsstring list \<Rightarrow> jsstring \<Rightarrow> Date \<Rightarrow> (error + Entry) \<times> VocaEngine" where
  "VocaEngine_updateEntryTags this entryId ts uuid now =
     (case InMemoryStorage_getEntry (storage this) entryId of
        None \<Rightarrow> (Inl (NotFound ''Entry'' entryId), this)
      | Some entry \<Rightarrow>
          (let cleaned = cleanTags ts;
               updatedEntry = new_Entry (entry_input entry) (entry_suggestion entry)
                                (entry_collectionId entry) (Some cleaned) (Some (entry_id entry)) uuid now
           in (Inr updatedEntry,
               this\<lparr>storage := InMemoryStorage_saveEntry (storage this) updatedEntry\<rparr>)))"

section \<open>The terms of the specification\<close>

text \<open>
  Every throw of the code is \<open>throw new Error(message)\<close>: the thrown object is of the
  class \<open>Error\<close>, whose \<open>name\<close> is \<open>Error\<close>, whatever the failure. The failures
  differ in their message only.
\<close>

fun errorName :: "error \<Rightarrow> string" where
  "errorName EmptyContent = ''Error''"
| "errorName EmptyName = ''Error''"
| "errorName (NotFound kind i) = ''Error''"
| "errorName Mismatch = ''Error''"
| "errorName (GenerationFailed cause) = ''Error''"

text \<open>
  The search procedure in the words of the specification: six stages, each filter applied
  when its option is supplied, then the sort, then skip \<open>offset\<close> and take \<open>limit\<close>.
\<close>

definition spec_matchesQuery :: "(jsstring \<Rightarrow> jsstring) \<Rightarrow> jsstring \<Rightarrow> Entry \<Rightarrow> bool" where
  "spec_matchesQuery toLowerCase q e =
     (str_includes (toLowerCase (inputContent (entry_input e))) (toLowerCase q)
      \<or> (\<exists>c \<in> set (suggestionCandidates (entry_suggestion e)).
            str_includes (toLowerCase c) (toLowerCase q))
      \<or> (\<exists>t \<in> set (entry_tags e). str_includes (toLowerCase t) (toLowerCase q)))"

definition spec_searchEntries ::
  "(jsstring \<Rightarrow> jsstring) \<Rightarrow> Entry list \<Rightarrow> SearchOptions \<Rightarrow> Entry list" where
  "spec_searchEntries toLowerCase full options =
     (let stage2 = (case collectionId options of
                      None \<Rightarrow> full
                    | Some cid \<Rightarrow> filter (\<lambda>e. entry_collectionId e = cid) full);
          stage3 = (case query options of
                      None \<Rightarrow> stage2
                    | Some q \<Rightarrow> if q = [] then stage2 else filter (spec_matchesQuery toLowerCase q) stage2);
          stage4 = (case tags options of
                      None \<Rightarrow> stage3
                    | Some ts \<Rightarrow>
                        if ts = [] then stage3
                        else filter (\<lambda>e. set ts \<subseteq> set (entry_tags e)) stage3);
          stage5 = sortMostRecentFirst stage4;
          skipped = drop (nat (case offset options of None \<Rightarrow> 0 | Some n \<Rightarrow> n)) stage5
      in case limit options of None \<Rightarrow> skipped | Some n \<Rightarrow> take (nat n) skipped)"

text \<open>
  The tag-set invariant: every tag trimmed and not empty, no tag twice. The normal form
  of a list of tags keeps the first occurrence of every trimmed, non-empty tag, in order.
\<close>

definition tagSetInvariant :: "jsstring list \<Rightarrow> bool" where
  "tagSetInvariant ts = (list_all (\<lambda>t. trim t = t \<and> t \<noteq> []) ts \<and> distinct ts)"

fun firstOccurrences :: "'a list \<Rightarrow> 'a list \<Rightarrow> 'a list" where
  "firstOccurrences seen [] = []"
| "firstOccurrences seen (x # xs) =
     (if x \<in> set seen then firstOccurrences seen xs else x # firstOccurrences (x # seen) xs)"

definition spec_normalizeTags :: "jsstring list \<Rightarrow> jsstring list" where
  "spec_normalizeTags ts = firstOccurrences [] (filter (\<lambda>t. t \<noteq> []) (map trim ts))"

text \<open>
  Calls of \<open>addInput\<close> one after the other. \<open>uuidv4\<close> stands for the library of
  that name: its \<open>n\<close>-th call returns \<open>uuidv4 n\<close>. A call that fails constructs no
  input and draws no identifier. The result lists the inputs returned, in order.
\<close>

fun addInputs ::
  "(nat \<Rightarrow> jsstring) \<Rightarrow> nat \<Rightarrow> VocaEngine \<Rightarrow> (InputType \<times> jsstring \<times> Date) list
     \<Rightarrow> ExpressionInput list" where
  "addInputs uuidv4 n this [] = []"
| "addInputs uuidv4 n this ((ty, content, now) # calls) =
     (case VocaEngine_addInput this ty content (uuidv4 n) now of
        (Inl e, this') \<Rightarrow> addInputs uuidv4 n this' calls
      | (Inr input, this') \<Rightarrow> input # addInputs uuidv4 (Suc n) this' calls)"

text \<open>The store files every record under its own identifier.\<close>

definition inputsKeyedById :: "InMemoryStorage \<Rightarrow> bool" where
  "inputsKeyedById st = list_all (\<lambda>(k, v). input_id v = k) (inputs st)"

section \<open>Example data\<close>

text \<open>
  \<open>toLowerCase\<close> on the strings of the examples, whose letters are Latin-1 letters: it
  maps A to Z and the capital letters from U+00C0 to U+00DE (U+00D7 is the
  multiplication sign) to their small letters, 32 code units further, and keeps every
  other code unit.
\<close>

definition ex_toLowerCase :: "jsstring \<Rightarrow> jsstring" where
  "ex_toLowerCase s =
     map (\<lambda>c. if (65 \<le> c \<and> c \<le> 90) \<or> (0xC0 \<le> c \<and> c \<le> 0xDE \<and> c \<noteq> 0xD7) then c + 32 else c) s"

text \<open>An identifier library for the examples: it returns u, uu, uuu and so on.\<close>

definition ex_uuidv4 :: "nat \<Rightarrow> jsstring" where
  "ex_uuidv4 n = replicate (Suc n) 117"

definition ex_input1 :: ExpressionInput where
  "ex_input1 = \<lparr>input_id = js ''i1'', input_type = Expression, input_content = js ''hello world'',
                input_createdAt = 1000\<rparr>"

definition ex_input2 :: ExpressionInput where
  "ex_input2 = \<lparr>input_id = js ''i2'', input_type = Explanation, input_content = js ''Second'',
                input_createdAt = 1500\<rparr>"

definition ex_suggestion1 :: Suggestion where
  "ex_suggestion1 = \<lparr>sug_id = js ''s1'', sug_inputId = js ''i1'', sug_candidates = [js ''a'', js ''b''],
                     sug_generatedAt = 2000\<rparr>"

definition ex_collection :: Collection where
  "ex_collection = \<lparr>col_id = js ''c1'', col_name = js ''C1'', col_createdAt = 500\<rparr>"

definition ex_entry1 :: Entry where
  "ex_entry1 = \<lparr>entry_id = js ''e1'', entry_input = InputObject ex_input1,
                entry_suggestion = SuggestionObject ex_suggestion1,
                entry_collectionId = js ''c1'', entry_tags = [js ''x'', js ''y''], entry_savedAt = 3000\<rparr>"

definition ex_entry2 :: Entry where
  "ex_entry2 = \<lparr>entry_id = js ''e2'', entry_input = InputObject ex_input1,
                entry_suggestion = SuggestionObject ex_suggestion1,
                entry_collectionId = js ''c1'', entry_tags = [js ''Tag'', js ''caf'' @ [0xE9]],
                entry_savedAt = 4000\<rparr>"

definition ex_storage :: InMemoryStorage where
  "ex_storage = \<lparr>inputs = [(js ''i1'', ex_input1), (js ''i2'', ex_input2)],
                 suggestions = [(js ''s1'', ex_suggestion1)],
                 collections = [(js ''c1'', ex_collection)],
                 entries = [(js ''e1'', ex_entry1), (js ''e2'', ex_entry2)]\<rparr>"

definition ex_engine :: VocaEngine where
  "ex_engine = \<lparr>llmProvider = (\<lambda>input. Inr [js ''a'', js ''b'']), storage = ex_storage,
                defaultSuggestionCount = 5\<rparr>"

section \<open>Properties\<close>

subsection \<open>Strings\<close>

lemma js_eq [simp]: "js a = js b \<longleftrightarrow> a = b"
  by (simp add: js_def inj_map_eq_map inj_on_def)

lemma js_Nil [simp]: "js [] = []" "js s = [] \<longleftrightarrow> s = []" "[] = js s \<longleftrightarrow> s = []"
  by (auto simp: js_def)

lemma js_append: "js a @ js b = js (a @ b)" "js a @ js b @ rest = js (a @ b) @ rest"
  by (simp_all add: js_def)

subsection \<open>White space\<close>

lemma dropWhile_all_iff: "(\<forall>x \<in> set (dropWhile P s). P x) \<longleftrightarrow> dropWhile P s = []"
proof
  assume a: "\<forall>x \<in> set (dropWhile P s). P x"
  show "dropWhile P s = []"
  proof (rule ccontr)
    assume n: "dropWhile P s \<noteq> []"
    then have "\<not> P (hd (dropWhile P s))" by (rule hd_dropWhile)
    moreover have "hd (dropWhile P s) \<in> set (dropWhile P s)" using n by simp
    ultimately show False using a by blast
  qed
qed (auto dest: set_dropWhileD)

lemma trim_empty_iff: "trim s = [] \<longleftrightarrow> list_all isWhiteSpace s"
proof -
  have "trim s = [] \<longleftrightarrow> (\<forall>x \<in> set (dropWhile isWhiteSpace s). isWhiteSpace x)"
    by (simp add: trim_def dropWhile_eq_Nil_conv)
  also have "\<dots> \<longleftrightarrow> dropWhile isWhiteSpace s = []" by (rule dropWhile_all_iff)
  also have "\<dots> \<longleftrightarrow> list_all isWhiteSpace s" by (simp add: dropWhile_eq_Nil_conv list_all_iff)
  finally show ?thesis .
qed

subsection \<open>Searching with an empty query\<close>

text \<open>
  Claim C2. For a collection id that resolves to a collection, the engine's
  \<open>searchEntries\<close> with the empty query returns what the engine's \<open>listEntries\<close>
  returns, which is the list of the store's \<open>listEntries\<close>: the engine delegates and
  does not query the store's search.
\<close>

theorem searchEntries_empty_query_is_listEntries:
  assumes "InMemoryStorage_getCollection (storage this) cid = Some c"
  shows "VocaEngine_searchEntries toLowerCase this cid [] = VocaEngine_listEntries this cid
       \<and> VocaEngine_listEntries this cid = Inr (InMemoryStorage_listEntries (storage this) cid)"
  using assms by (simp add: VocaEngine_searchEntries_def VocaEngine_listEntries_def)

theorem searchEntries_empty_query_is_listEntries_witness:
  "InMemoryStorage_getCollection (storage ex_engine) (js ''c1'') = Some ex_collection
   \<and> VocaEngine_searchEntries ex_toLowerCase ex_engine (js ''c1'') [] = Inr [ex_entry2, ex_entry1]
   \<and> VocaEngine_listEntries ex_engine (js ''c1'') = Inr [ex_entry2, ex_entry1]"
proof -
  have h: "InMemoryStorage_getCollection (storage ex_engine) (js ''c1'') = Some ex_collection"
    by (simp add: InMemoryStorage_getCollection_def ex_engine_def ex_storage_def)
  have l: "InMemoryStorage_listEntries (storage ex_engine) (js ''c1'') = [ex_entry2, ex_entry1]"
    by (simp add: InMemoryStorage_listEntries_def sortMostRecentFirst_def mapValues_def
        ex_engine_def ex_storage_def ex_entry1_def ex_entry2_def)
  show ?thesis
    using h l searchEntries_empty_query_is_listEntries [OF h] by simp
qed

subsection \<open>Saving a suggestion that belongs to another input\<close>

text \<open>
  Claim C3, as stated, fails: the code has no \<open>ReferentialIntegrityError\<close>. Saving the
  suggestion of the first input under the second input throws an object whose name is
  \<open>Error\<close>.
\<close>

theorem saveEntry_mismatch_counterexample:
  "fst (VocaEngine_saveEntry ex_engine (js ''i2'') (js ''s1'') (js ''c1'') None (js ''u'') 5000) = Inl Mismatch
   \<and> errorName Mismatch = ''Error''
   \<and> errorName Mismatch \<noteq> ''ReferentialIntegrityError''"
  by (simp add: VocaEngine_saveEntry_def InMemoryStorage_getInput_def
      InMemoryStorage_getSuggestion_def InMemoryStorage_getCollection_def ex_engine_def
      ex_storage_def ex_suggestion1_def)

text \<open>
  Claim C3, amended. When the input, the suggestion and the collection all resolve and
  the suggestion's \<open>inputId\<close> differs from the given input id, \<open>saveEntry\<close> fails with
  a plain \<open>Error\<close> whose message says that the suggestion does not belong to the
  specified input, and leaves the engine as it was.
\<close>

theorem saveEntry_mismatch_fails:
  assumes "InMemoryStorage_getInput (storage this) inputId = Some input"
    and "InMemoryStorage_getSuggestion (storage this) suggestionId = Some suggestion"
    and "InMemoryStorage_getCollection (storage this) cid = Some collection"
    and "sug_inputId suggestion \<noteq> inputId"
  shows "\<exists>e. VocaEngine_saveEntry this inputId suggestionId cid ts uuid now = (Inl e, this)
           \<and> errorName e = ''Error''
           \<and> message e = js ''Suggestion does not belong to the specified input''"
  using assms by (simp add: VocaEngine_saveEntry_def)

theorem saveEntry_mismatch_fails_witness:
  "InMemoryStorage_getInput (storage ex_engine) (js ''i2'') = Some ex_input2
   \<and> InMemoryStorage_getSuggestion (storage ex_engine) (js ''s1'') = Some ex_suggestion1
   \<and> InMemoryStorage_getCollection (storage ex_engine) (js ''c1'') = Some ex_collection
   \<and> sug_inputId ex_suggestion1 \<noteq> (js ''i2'')
   \<and> (\<exists>e. VocaEngine_saveEntry ex_engine (js ''i2'') (js ''s1'') (js ''c1'') None (js ''u'') 5000 = (Inl e, ex_engine)
           \<and> errorName e = ''Error''
           \<and> message e = js ''Suggestion does not belong to the specified input'')"
proof -
  have h1: "InMemoryStorage_getInput (storage ex_engine) (js ''i2'') = Some ex_input2"
    by (simp add: InMemoryStorage_getInput_def ex_engine_def ex_storage_def)
  have h2: "InMemoryStorage_getSuggestion (storage ex_engine) (js ''s1'') = Some ex_suggestion1"
    by (simp add: InMemoryStorage_getSuggestion_def ex_engine_def ex_storage_def)
  have h3: "InMemoryStorage_getCollection (storage ex_engine) (js ''c1'') = Some ex_collection"
    by (simp add: InMemoryStorage_getCollection_def ex_engine_def ex_storage_def)
  have h4: "sug_inputId ex_suggestion1 \<noteq> (js ''i2'')"
    by (simp add: ex_suggestion1_def)
  show ?thesis
    using h1 h2 h3 h4 saveEntry_mismatch_fails [OF h1 h2 h3 h4, of None "js ''u''" 5000] by simp
qed

subsection \<open>A failed save writes nothing\<close>

text \<open>
  Claim C9. \<open>saveEntry\<close> fails exactly when the input, the suggestion or the collection
  is missing or the suggestion does not belong to the input, and whenever it fails the
  engine after the call is the engine before it: the entries of the store are unchanged
  and no entry is persisted.
\<close>

theorem saveEntry_failure_writes_nothing:
  "(isl (fst (VocaEngine_saveEntry this inputId suggestionId cid ts uuid now))
      \<longleftrightarrow> InMemoryStorage_getInput (storage this) inputId = None
        \<or> InMemoryStorage_getSuggestion (storage this) suggestionId = None
        \<or> InMemoryStorage_getCollection (storage this) cid = None
        \<or> (\<exists>s. InMemoryStorage_getSuggestion (storage this) suggestionId = Some s
                \<and> sug_inputId s \<noteq> inputId))
   \<and> (isl (fst (VocaEngine_saveEntry this inputId suggestionId cid ts uuid now))
      \<longrightarrow> snd (VocaEngine_saveEntry this inputId suggestionId cid ts uuid now) = this
        \<and> entries (storage (snd (VocaEngine_saveEntry this inputId suggestionId cid ts uuid now)))
            = entries (storage this))"
  by (auto simp: VocaEngine_saveEntry_def Let_def split: option.splits)

theorem saveEntry_failure_writes_nothing_witness:
  "isl (fst (VocaEngine_saveEntry ex_engine (js ''i1'') (js ''missing'') (js ''c1'') None (js ''u'') 5000))
   \<and> snd (VocaEngine_saveEntry ex_engine (js ''i1'') (js ''missing'') (js ''c1'') None (js ''u'') 5000) = ex_engine
   \<and> entries (storage (snd (VocaEngine_saveEntry ex_engine (js ''i1'') (js ''missing'') (js ''c1'') None (js ''u'') 5000)))
       = [(js ''e1'', ex_entry1), (js ''e2'', ex_entry2)]"
proof -
  have h: "InMemoryStorage_getSuggestion (storage ex_engine) (js ''missing'') = None"
    by (simp add: InMemoryStorage_getSuggestion_def ex_engine_def ex_storage_def)
  have e: "entries (storage ex_engine) = [(js ''e1'', ex_entry1), (js ''e2'', ex_entry2)]"
    by (simp add: ex_engine_def ex_storage_def)
  show ?thesis
    using h e saveEntry_failure_writes_nothing
      [of ex_engine "js ''i1''" "js ''missing''" "js ''c1''" None "js ''u''" 5000]
    by simp
qed

subsection \<open>Searching with a query of white space\<close>

text \<open>
  Claim C10. For a collection id that resolves to a collection, a query that consists of
  white space only makes the engine's \<open>searchEntries\<close> return what \<open>listEntries\<close>
  returns; any other query is trimmed and passed to the store's search together with the
  collection id.
\<close>

theorem searchEntries_whitespace_query:
  assumes "InMemoryStorage_getCollection (storage this) cid = Some c"
  shows "(list_all isWhiteSpace q \<longrightarrow>
            VocaEngine_searchEntries toLowerCase this cid q = VocaEngine_listEntries this cid
            \<and> VocaEngine_listEntries this cid = Inr (InMemoryStorage_listEntries (storage this) cid))
       \<and> (\<not> list_all isWhiteSpace q \<longrightarrow>
            VocaEngine_searchEntries toLowerCase this cid q =
              Inr (InMemoryStorage_searchEntries toLowerCase (storage this)
                     \<lparr>query = Some (trim q), collectionId = Some cid, tags = None,
                      limit = None, offset = None\<rparr>))"
proof -
  have "q = [] \<Longrightarrow> trim q = []" by (simp add: trim_def)
  then show ?thesis
    using assms
    by (auto simp: VocaEngine_searchEntries_def VocaEngine_listEntries_def trim_empty_iff)
qed

theorem searchEntries_whitespace_query_witness:
  "InMemoryStorage_getCollection (storage ex_engine) (js ''c1'') = Some ex_collection
   \<and> list_all isWhiteSpace [0x00A0, 0x0020, 0x3000]
   \<and> VocaEngine_searchEntries ex_toLowerCase ex_engine (js ''c1'') [0x00A0, 0x0020, 0x3000]
       = Inr [ex_entry2, ex_entry1]
   \<and> VocaEngine_listEntries ex_engine (js ''c1'') = Inr [ex_entry2, ex_entry1]
   \<and> \<not> list_all isWhiteSpace (js '' tag '')
   \<and> VocaEngine_searchEntries ex_toLowerCase ex_engine (js ''c1'') (js '' tag '') =
       Inr (InMemoryStorage_searchEntries ex_toLowerCase (storage ex_engine)
              \<lparr>query = Some (js ''tag''), collectionId = Some (js ''c1''), tags = None,
               limit = None, offset = None\<rparr>)"
proof -
  have h: "InMemoryStorage_getCollection (storage ex_engine) (js ''c1'') = Some ex_collection"
    by (simp add: InMemoryStorage_getCollection_def ex_engine_def ex_storage_def)
  have l: "InMemoryStorage_listEntries (storage ex_engine) (js ''c1'') = [ex_entry2, ex_entry1]"
    by (simp add: InMemoryStorage_listEntries_def sortMostRecentFirst_def mapValues_def
        ex_engine_def ex_storage_def ex_entry1_def ex_entry2_def)
  have w: "list_all isWhiteSpace [0x00A0, 0x0020, 0x3000]" by (simp add: isWhiteSpace_def)
  have n: "\<not> list_all isWhiteSpace (js '' tag '')" by (simp add: isWhiteSpace_def js_def)
  have t: "trim (js '' tag '') = js ''tag''" by (simp add: trim_def isWhiteSpace_def js_def)
  show ?thesis
    using h l w n t searchEntries_whitespace_query [OF h, of "[0x00A0, 0x0020, 0x3000]"]
      searchEntries_whitespace_query [OF h, of "js '' tag ''"]
    by simp
qed

subsection \<open>Generating suggestions\<close>

lemma keyed_lookup:
  "list_all (\<lambda>(k, v). f v = k) al \<Longrightarrow> map_of al i = Some x \<Longrightarrow> f x = i"
  by (induction al) (auto split: if_splits)

lemma inputsKeyedById_getInput:
  "inputsKeyedById st \<Longrightarrow> InMemoryStorage_getInput st i = Some input \<Longrightarrow> input_id input = i"
  unfolding inputsKeyedById_def InMemoryStorage_getInput_def by (rule keyed_lookup)

lemma keyed_update:
  "list_all (\<lambda>(k, v). f v = k) al \<Longrightarrow> list_all (\<lambda>(k, v). f v = k) (AList.update (f x) x al)"
  by (induction al) auto

lemma inputsKeyedById_saveInput:
  "inputsKeyedById st \<Longrightarrow> inputsKeyedById (InMemoryStorage_saveInput st input)"
  by (simp add: inputsKeyedById_def InMemoryStorage_saveInput_def keyed_update)

text \<open>
  Claim C7, as stated, fails: the code has no \<open>NotFoundError\<close> and no
  \<open>ProviderError\<close>. An unknown input id and a provider that returns no candidate both
  throw an object whose name is \<open>Error\<close>.
\<close>

theorem generateSuggestions_counterexample:
  "fst (VocaEngine_generateSuggestions ex_engine (js ''nope'') (js ''u'') 9000) = Inl (NotFound ''Input'' (js ''nope''))
   \<and> errorName (NotFound ''Input'' (js ''nope'')) \<noteq> ''NotFoundError''
   \<and> fst (VocaEngine_generateSuggestions (ex_engine\<lparr>llmProvider := \<lambda>i. Inr []\<rparr>) (js ''i1'') (js ''u'') 9000)
       = Inl (GenerationFailed (js ''Error: No suggestions generated''))
   \<and> errorName (GenerationFailed (js ''Error: No suggestions generated'')) \<noteq> ''ProviderError''"
  by (simp add: VocaEngine_generateSuggestions_def InMemoryStorage_getInput_def ex_engine_def
      ex_storage_def js_append)

text \<open>
  Claim C7, amended. \<open>generateSuggestions\<close> fails with a plain \<open>Error\<close> whose message
  is that the input with this id is not found when the input id does not resolve, and
  with a plain \<open>Error\<close> whose message starts with \<open>Failed to generate suggestions: \<close>
  when the provider throws or returns no candidate; in both cases nothing is written.
  Otherwise it returns a suggestion whose \<open>inputId\<close> is the input's id and whose
  candidates are the provider's non-empty list, and the store holds it under its id.
\<close>

theorem generateSuggestions_outcomes:
  "(InMemoryStorage_getInput (storage this) inputId = None \<longrightarrow>
      (\<exists>e. VocaEngine_generateSuggestions this inputId uuid now = (Inl e, this)
           \<and> errorName e = ''Error''
           \<and> message e = js ''Input with id '' @ inputId @ js '' not found''))
   \<and> (\<forall>input. InMemoryStorage_getInput (storage this) inputId = Some input
          \<and> (isl (llmProvider this input) \<or> llmProvider this input = Inr []) \<longrightarrow>
      (\<exists>e. VocaEngine_generateSuggestions this inputId uuid now = (Inl e, this)
           \<and> errorName e = ''Error''
           \<and> (\<exists>cause. message e = js ''Failed to generate suggestions: '' @ cause)))
   \<and> (\<forall>input candidates. InMemoryStorage_getInput (storage this) inputId = Some input
          \<and> llmProvider this input = Inr candidates \<and> candidates \<noteq> []
          \<and> inputsKeyedById (storage this) \<longrightarrow>
      (\<exists>s this'. VocaEngine_generateSuggestions this inputId uuid now = (Inr s, this')
           \<and> sug_inputId s = input_id input \<and> sug_candidates s = candidates
           \<and> sug_candidates s \<noteq> []
           \<and> InMemoryStorage_getSuggestion (storage this') (sug_id s) = Some s))"
proof (intro conjI allI impI)
  assume "InMemoryStorage_getInput (storage this) inputId = None"
  then show "\<exists>e. VocaEngine_generateSuggestions this inputId uuid now = (Inl e, this)
           \<and> errorName e = ''Error''
           \<and> message e = js ''Input with id '' @ inputId @ js '' not found''"
    by (simp add: VocaEngine_generateSuggestions_def js_append)
next
  fix input
  assume "InMemoryStorage_getInput (storage this) inputId = Some input
          \<and> (isl (llmProvider this input) \<or> llmProvider this input = Inr [])"
  then show "\<exists>e. VocaEngine_generateSuggestions this inputId uuid now = (Inl e, this)
           \<and> errorName e = ''Error''
           \<and> (\<exists>cause. message e = js ''Failed to generate suggestions: '' @ cause)"
    by (auto simp: VocaEngine_generateSuggestions_def split: sum.splits)
next
  fix input candidates
  assume a: "InMemoryStorage_getInput (storage this) inputId = Some input
          \<and> llmProvider this input = Inr candidates \<and> candidates \<noteq> []
          \<and> inputsKeyedById (storage this)"
  then have "input_id input = inputId"
    using inputsKeyedById_getInput by blast
  with a show "\<exists>s this'. VocaEngine_generateSuggestions this inputId uuid now = (Inr s, this')
           \<and> sug_inputId s = input_id input \<and> sug_candidates s = candidates
           \<and> sug_candidates s \<noteq> []
           \<and> InMemoryStorage_getSuggestion (storage this') (sug_id s) = Some s"
    by (simp add: VocaEngine_generateSuggestions_def Let_def new_Suggestion_def
        InMemoryStorage_saveSuggestion_def InMemoryStorage_getSuggestion_def update_conv')
qed

theorem generateSuggestions_outcomes_witness:
  "InMemoryStorage_getInput (storage ex_engine) (js ''nope'') = None
   \<and> (\<exists>e. VocaEngine_generateSuggestions ex_engine (js ''nope'') (js ''u'') 9000 = (Inl e, ex_engine)
          \<and> errorName e = ''Error''
           \<and> message e = js ''Input with id nope not found'')
   \<and> InMemoryStorage_getInput (storage (ex_engine\<lparr>llmProvider := \<lambda>i. Inr []\<rparr>)) (js ''i1'') = Some ex_input1
   \<and> (\<exists>e. VocaEngine_generateSuggestions (ex_engine\<lparr>llmProvider := \<lambda>i. Inr []\<rparr>) (js ''i1'') (js ''u'') 9000
            = (Inl e, ex_engine\<lparr>llmProvider := \<lambda>i. Inr []\<rparr>)
          \<and> errorName e = ''Error''
           \<and> (\<exists>cause. message e = js ''Failed to generate suggestions: '' @ cause))
   \<and> InMemoryStorage_getInput (storage ex_engine) (js ''i1'') = Some ex_input1
   \<and> llmProvider ex_engine ex_input1 = Inr [js ''a'', js ''b'']
   \<and> inputsKeyedById (storage ex_engine)
   \<and> (\<exists>s this'. VocaEngine_generateSuggestions ex_engine (js ''i1'') (js ''u'') 9000 = (Inr s, this')
          \<and> sug_inputId s = input_id ex_input1 \<and> sug_candidates s = [js ''a'', js ''b'']
          \<and> InMemoryStorage_getSuggestion (storage this') (sug_id s) = Some s)"
proof -
  have h0: "InMemoryStorage_getInput (storage ex_engine) (js ''nope'') = None"
    by (simp add: InMemoryStorage_getInput_def ex_engine_def ex_storage_def)
  have h1: "InMemoryStorage_getInput (storage ex_engine) (js ''i1'') = Some ex_input1"
    by (simp add: InMemoryStorage_getInput_def ex_engine_def ex_storage_def)
  have h1': "InMemoryStorage_getInput (storage (ex_engine\<lparr>llmProvider := \<lambda>i. Inr []\<rparr>)) (js ''i1'')
      = Some ex_input1"
    using h1 by simp
  have h2: "llmProvider ex_engine ex_input1 = Inr [js ''a'', js ''b'']"
    by (simp add: ex_engine_def)
  have h3: "inputsKeyedById (storage ex_engine)"
    by (simp add: inputsKeyedById_def ex_engine_def ex_storage_def ex_input1_def ex_input2_def)
  show ?thesis
    using h0 h1 h1' h2 h3
      generateSuggestions_outcomes [of ex_engine "js ''nope''" "js ''u''" 9000]
      generateSuggestions_outcomes [of "ex_engine\<lparr>llmProvider := \<lambda>i. Inr []\<rparr>" "js ''i1''" "js ''u''" 9000]
      generateSuggestions_outcomes [of ex_engine "js ''i1''" "js ''u''" 9000]
    by (auto simp: js_append)
qed

subsection \<open>Adding an input\<close>

lemma addInput_result:
  "VocaEngine_addInput this ty content uuid now =
     (if trim content = [] then (Inl EmptyContent, this)
      else (Inr (new_ExpressionInput ty (trim content) None uuid now),
            this\<lparr>storage := InMemoryStorage_saveInput (storage this)
                                (new_ExpressionInput ty (trim content) None uuid now)\<rparr>))"
proof -
  have "content = [] \<Longrightarrow> trim content = []" by (simp add: trim_def)
  then show ?thesis by (auto simp: VocaEngine_addInput_def Let_def)
qed

lemma addInputs_ids:
  "set (map input_id (addInputs uuidv4 n this calls)) \<subseteq> uuidv4 ` {n..}"
proof (induction calls arbitrary: n this)
  case Nil
  then show ?case by simp
next
  case (Cons call calls)
  obtain ty content now where call: "call = (ty, content, now)" by (cases call)
  show ?case
  proof (cases "trim content = []")
    case True
    then show ?thesis using Cons.IH [of n this] by (simp add: call addInput_result)
  next
    case False
    have "set (map input_id (addInputs uuidv4 (Suc n)
              (this\<lparr>storage := InMemoryStorage_saveInput (storage this)
                                  (new_ExpressionInput ty (trim content) None (uuidv4 n) now)\<rparr>)
              calls)) \<subseteq> uuidv4 ` {Suc n..}"
      by (rule Cons.IH)
    also have "\<dots> \<subseteq> uuidv4 ` {n..}" by auto
    finally show ?thesis
      using False by (simp add: call addInput_result new_ExpressionInput_def idOr_def)
  qed
qed

lemma addInputs_distinct:
  assumes "inj uuidv4"
  shows "distinct (map input_id (addInputs uuidv4 n this calls))"
proof (induction calls arbitrary: n this)
  case Nil
  then show ?case by simp
next
  case (Cons call calls)
  obtain ty content now where call: "call = (ty, content, now)" by (cases call)
  show ?case
  proof (cases "trim content = []")
    case True
    then show ?thesis using Cons.IH [of n this] by (simp add: call addInput_result)
  next
    case False
    define this' where "this' = this\<lparr>storage := InMemoryStorage_saveInput (storage this)
                                  (new_ExpressionInput ty (trim content) None (uuidv4 n) now)\<rparr>"
    have "uuidv4 n \<notin> uuidv4 ` {Suc n..}"
      using assms by (auto simp: inj_eq)
    then have fresh: "uuidv4 n \<notin> set (map input_id (addInputs uuidv4 (Suc n) this' calls))"
      using addInputs_ids [of uuidv4 "Suc n" this' calls] by blast
    have "distinct (map input_id (addInputs uuidv4 (Suc n) this' calls))"
      by (rule Cons.IH)
    then show ?thesis
      using False fresh
      by (simp add: call addInput_result new_ExpressionInput_def idOr_def this'_def)
  qed
qed

text \<open>
  Claim C8, as stated, fails: the code has no \<open>ValidationError\<close>. Adding an input of
  white space throws an object whose name is \<open>Error\<close>.
\<close>

theorem addInput_counterexample:
  "fst (VocaEngine_addInput ex_engine Expression (js ''   '') (js ''u1'') 7000) = Inl EmptyContent
   \<and> errorName EmptyContent = ''Error''
   \<and> errorName EmptyContent \<noteq> ''ValidationError''"
  by (simp add: VocaEngine_addInput_def trim_def isWhiteSpace_def js_def)

text \<open>
  Claim C8, amended. When the trimmed content is not empty, \<open>addInput\<close> returns and
  stores an input whose content is the trimmed content and whose id is unique across
  calls: in every run of calls the inputs returned have pairwise different ids, the
  identifier library returning no identifier twice. When the content is empty or white
  space only, \<open>addInput\<close> fails with a plain \<open>Error\<close> whose message is that the input
  content cannot be empty, and writes nothing.
\<close>

theorem addInput_outcomes:
  "(trim content \<noteq> [] \<longrightarrow>
      (\<exists>input this'. VocaEngine_addInput this ty content uuid now = (Inr input, this')
          \<and> input_content input = trim content \<and> input_type input = ty
          \<and> input_id input = uuid
          \<and> InMemoryStorage_getInput (storage this') (input_id input) = Some input))
   \<and> (inj uuidv4 \<longrightarrow> distinct (map input_id (addInputs uuidv4 n this calls)))
   \<and> (trim content = [] \<longrightarrow>
      (\<exists>e. VocaEngine_addInput this ty content uuid now = (Inl e, this)
          \<and> errorName e = ''Error''
          \<and> message e = js ''Input content cannot be empty''))"
  by (auto simp: addInput_result addInputs_distinct new_ExpressionInput_def idOr_def
      InMemoryStorage_saveInput_def InMemoryStorage_getInput_def update_conv')

theorem addInput_outcomes_witness:
  "trim ([0x00A0] @ js '' test  '') \<noteq> []
   \<and> (\<exists>input this'. VocaEngine_addInput ex_engine Expression ([0x00A0] @ js '' test  '') (js ''u1'') 7000
          = (Inr input, this')
        \<and> input_content input = js ''test'' \<and> input_id input = js ''u1'')
   \<and> inj ex_uuidv4
   \<and> map input_id (addInputs ex_uuidv4 0 ex_engine
          [(Expression, js '' a'', 7000), (Expression, [0x00A0], 7001), (Image, js ''b '', 7002)])
       = [js ''u'', js ''uu'']
   \<and> distinct (map input_id (addInputs ex_uuidv4 0 ex_engine
          [(Expression, js '' a'', 7000), (Expression, [0x00A0], 7001), (Image, js ''b '', 7002)]))
   \<and> trim [0x00A0, 0x0020] = []
   \<and> (\<exists>e. VocaEngine_addInput ex_engine Expression [0x00A0, 0x0020] (js ''u1'') 7000 = (Inl e, ex_engine)
          \<and> errorName e = ''Error''
          \<and> message e = js ''Input content cannot be empty'')"
proof -
  have t1: "trim ([0x00A0] @ js '' test  '') = js ''test''"
    by (simp add: trim_def isWhiteSpace_def js_def)
  have t2: "trim [0x00A0, 0x0020] = []" by (simp add: trim_def isWhiteSpace_def)
  have i: "inj ex_uuidv4" by (simp add: inj_def ex_uuidv4_def)
  have t3: "trim (js '' a'') = js ''a''" "trim [0x00A0] = []" "trim (js ''b '') = js ''b''"
    by (simp_all add: trim_def isWhiteSpace_def js_def)
  have r0: "map input_id (addInputs ex_uuidv4 0 ex_engine
          [(Expression, js '' a'', 7000), (Expression, [0x00A0], 7001), (Image, js ''b '', 7002)])
       = [ex_uuidv4 0, ex_uuidv4 (Suc 0)]"
    by (simp add: addInput_result t3 new_ExpressionInput_def idOr_def)
  have u: "ex_uuidv4 0 = js ''u''" "ex_uuidv4 (Suc 0) = js ''uu''"
    by (simp_all add: ex_uuidv4_def js_def)
  have r: "map input_id (addInputs ex_uuidv4 0 ex_engine
          [(Expression, js '' a'', 7000), (Expression, [0x00A0], 7001), (Image, js ''b '', 7002)])
       = [js ''u'', js ''uu'']"
    using r0 u by simp
  show ?thesis
    using t1 t2 i r
      addInput_outcomes [of "[0x00A0] @ js '' test  ''" ex_engine Expression "js ''u1''" 7000 ex_uuidv4 0
        "[(Expression, js '' a'', 7000), (Expression, [0x00A0], 7001), (Image, js ''b '', 7002)]"]
      addInput_outcomes [of "[0x00A0, 0x0020]" ex_engine Expression "js ''u1''" 7000 ex_uuidv4 0 "[]"]
    by auto
qed

subsection \<open>The search of the store\<close>

lemma js_slice_nonneg:
  assumes "0 \<le> a" and "0 \<le> l"
  shows "js_slice xs a (a + l) = take (nat l) (drop (nat a) xs)"
proof (cases "a \<le> int (length xs)")
  case True
  then have "min (a + l) (int (length xs)) - a = min l (int (length xs) - a)" by linarith
  moreover have "take (nat (min l (int (length xs) - a))) (drop (nat a) xs)
      = take (nat l) (drop (nat a) xs)"
  proof -
    have "nat (min l (int (length xs) - a)) = min (nat l) (length (drop (nat a) xs))"
      using assms True by (simp add: min_def) linarith
    then show ?thesis by (simp add: min_def)
  qed
  ultimately show ?thesis using assms True by (simp add: js_slice_def Let_def min_def)
next
  case False
  then show ?thesis using assms by (simp add: js_slice_def Let_def min_def)
qed

lemma js_slice_all:
  assumes "0 \<le> a"
  shows "js_slice xs a (a + int (length xs)) = drop (nat a) xs"
  using js_slice_nonneg [OF assms, of "int (length xs)" xs] by simp

lemma queryFilter_spec: "queryFilter toLowerCase (toLowerCase q) = spec_matchesQuery toLowerCase q"
  by (rule ext) (auto simp: queryFilter_def spec_matchesQuery_def list_ex_iff)

lemma all_tags_subset: "list_all (\<lambda>tag. tag \<in> set ys) ts \<longleftrightarrow> set ts \<subseteq> set ys"
  by (auto simp: list_all_iff)

lemma sortMostRecentFirst_descending:
  "sorted_wrt (\<lambda>a b. entry_savedAt b \<le> entry_savedAt a) (sortMostRecentFirst es)"
proof -
  have "sorted (map (\<lambda>e. - entry_savedAt e) (sortMostRecentFirst es))"
    by (simp add: sortMostRecentFirst_def)
  then show ?thesis by (simp add: sorted_map)
qed

lemma js_slice_descending:
  "sorted_wrt R xs \<Longrightarrow> sorted_wrt R (js_slice xs a b)"
  by (simp add: js_slice_def Let_def sorted_wrt_take sorted_wrt_drop)

text \<open>
  Claim C1, as stated, fails: the store reads its options by truthiness. With
  \<open>options.limit || results.length\<close> a limit of 0 is taken as no limit: with two entries
  in the store and \<open>limit = 0\<close> the store returns both, where the six-stage procedure
  takes at most 0 entries. With \<open>if (options.collectionId)\<close> an empty collection id
  does not filter: the store returns both entries, where the procedure keeps the entries
  whose collection id is the empty string, of which there is none. A negative limit makes
  \<open>slice\<close> count from the end: with \<open>limit = -1\<close> the store returns all entries but
  the last.
\<close>

theorem searchEntries_zero_limit_counterexample:
  "InMemoryStorage_searchEntries ex_toLowerCase ex_storage
      \<lparr>query = None, collectionId = None, tags = None, limit = Some 0, offset = None\<rparr>
     = [ex_entry2, ex_entry1]
   \<and> spec_searchEntries ex_toLowerCase (mapValues (entries ex_storage))
      \<lparr>query = None, collectionId = None, tags = None, limit = Some 0, offset = None\<rparr>
     = []
   \<and> InMemoryStorage_searchEntries ex_toLowerCase ex_storage
      \<lparr>query = None, collectionId = Some [], tags = None, limit = None, offset = None\<rparr>
     = [ex_entry2, ex_entry1]
   \<and> spec_searchEntries ex_toLowerCase (mapValues (entries ex_storage))
      \<lparr>query = None, collectionId = Some [], tags = None, limit = None, offset = None\<rparr>
     = []
   \<and> InMemoryStorage_searchEntries ex_toLowerCase ex_storage
      \<lparr>query = None, collectionId = None, tags = None, limit = Some (- 1), offset = None\<rparr>
     = [ex_entry2]
   \<and> spec_searchEntries ex_toLowerCase (mapValues (entries ex_storage))
      \<lparr>query = None, collectionId = None, tags = None, limit = Some (- 1), offset = None\<rparr>
     = []"
  by (simp add: InMemoryStorage_searchEntries_def spec_searchEntries_def sortMostRecentFirst_def
      mapValues_def js_slice_def ex_storage_def ex_entry1_def ex_entry2_def)

text \<open>
  Claim C1, amended. For an offset and a limit that are not negative, and whatever
  function \<open>toLowerCase\<close> is, the store's
  \<open>searchEntries\<close> is the six-stage procedure run on the options in which an empty
  \<open>collectionId\<close> and a \<open>limit\<close> of 0 count as absent: it filters by collection
  when a non-empty \<open>collectionId\<close> is supplied, by the lowercased query over content,
  candidates and tags when the query is non-empty, by the requested tags when there are
  some, sorts by \<open>savedAt\<close> descending, skips \<open>offset\<close> and takes at most \<open>limit\<close>
  when a non-zero limit is supplied. The result is in descending order of \<open>savedAt\<close>.
\<close>

theorem searchEntries_procedure:
  assumes "\<forall>n. offset options = Some n \<longrightarrow> 0 \<le> n"
    and "\<forall>n. limit options = Some n \<longrightarrow> 0 \<le> n"
  shows "InMemoryStorage_searchEntries toLowerCase this options =
           spec_searchEntries toLowerCase (mapValues (entries this))
             (options\<lparr>collectionId := (if collectionId options = Some [] then None
                                        else collectionId options),
                      limit := (if limit options = Some 0 then None else limit options)\<rparr>)
       \<and> sorted_wrt (\<lambda>a b. entry_savedAt b \<le> entry_savedAt a)
           (InMemoryStorage_searchEntries toLowerCase this options)"
proof
  show "sorted_wrt (\<lambda>a b. entry_savedAt b \<le> entry_savedAt a)
           (InMemoryStorage_searchEntries toLowerCase this options)"
    by (simp add: InMemoryStorage_searchEntries_def Let_def js_slice_descending
        sortMostRecentFirst_descending)
next
  define options' where
    "options' = options\<lparr>collectionId := (if collectionId options = Some [] then None
                                            else collectionId options),
                          limit := (if limit options = Some 0 then None else limit options)\<rparr>"
  define full where "full = mapValues (entries this)"
  define c2 where "c2 = (case collectionId options of
                           None \<Rightarrow> full
                         | Some cid \<Rightarrow>
                             if cid = [] then full
                             else filter (\<lambda>entry. entry_collectionId entry = cid) full)"
  define c3 where "c3 = (case query options of
                           None \<Rightarrow> c2
                         | Some q \<Rightarrow>
                             if q = [] then c2 else filter (queryFilter toLowerCase (toLowerCase q)) c2)"
  define c4 where "c4 = (case tags options of
                           None \<Rightarrow> c3
                         | Some ts \<Rightarrow>
                             if 0 < length ts
                             then filter (\<lambda>entry. list_all (\<lambda>tag. tag \<in> set (entry_tags entry)) ts) c3
                             else c3)"
  define c5 where "c5 = sortMostRecentFirst c4"
  define off where "off = (case offset options of None \<Rightarrow> 0 | Some n \<Rightarrow> n)"
  define s2 where "s2 = (case collectionId options' of
                           None \<Rightarrow> full
                         | Some cid \<Rightarrow> filter (\<lambda>e. entry_collectionId e = cid) full)"
  define s3 where "s3 = (case query options' of
                           None \<Rightarrow> s2
                         | Some q \<Rightarrow> if q = [] then s2 else filter (spec_matchesQuery toLowerCase q) s2)"
  define s4 where "s4 = (case tags options' of
                           None \<Rightarrow> s3
                         | Some ts \<Rightarrow>
                             if ts = [] then s3
                             else filter (\<lambda>e. set ts \<subseteq> set (entry_tags e)) s3)"
  define s5 where "s5 = sortMostRecentFirst s4"
  define off' where "off' = (case offset options' of None \<Rightarrow> 0 | Some n \<Rightarrow> n)"
  have code: "InMemoryStorage_searchEntries toLowerCase this options =
      js_slice c5 off (off + (case limit options of
                                None \<Rightarrow> int (length c5)
                              | Some n \<Rightarrow> if n = 0 then int (length c5) else n))"
    unfolding InMemoryStorage_searchEntries_def Let_def c5_def c4_def c3_def c2_def full_def off_def
    by (rule refl)
  have spec: "spec_searchEntries toLowerCase full options' =
      (case limit options' of
         None \<Rightarrow> drop (nat off') s5 | Some n \<Rightarrow> take (nat n) (drop (nat off') s5))"
    unfolding spec_searchEntries_def Let_def s5_def s4_def s3_def s2_def off'_def
    by (rule refl)
  have off0: "0 \<le> off"
    using assms(1) by (simp add: off_def split: option.splits)
  have o: "off' = off"
    by (simp add: off_def off'_def options'_def)
  have e2: "c2 = s2"
    by (simp add: c2_def s2_def options'_def split: option.splits)
  have e3: "c3 = s3"
    by (simp add: c3_def s3_def e2 queryFilter_spec options'_def split: option.splits)
  have e4: "c4 = s4"
    by (simp add: c4_def s4_def e3 all_tags_subset options'_def split: option.splits)
  have e5: "c5 = s5"
    by (simp add: c5_def s5_def e4)
  have "js_slice s5 off (off + (case limit options of
                                None \<Rightarrow> int (length s5)
                              | Some n \<Rightarrow> if n = 0 then int (length s5) else n))
      = (case limit options' of
           None \<Rightarrow> drop (nat off) s5 | Some n \<Rightarrow> take (nat n) (drop (nat off) s5))"
    using off0 assms(2)
    by (simp add: js_slice_all js_slice_nonneg options'_def split: option.splits)
  then show "InMemoryStorage_searchEntries toLowerCase this options =
      spec_searchEntries toLowerCase (mapValues (entries this))
        (options\<lparr>collectionId := (if collectionId options = Some [] then None
                                   else collectionId options),
                 limit := (if limit options = Some 0 then None else limit options)\<rparr>)"
    unfolding code spec [unfolded full_def options'_def o, folded options'_def] e5
      options'_def [symmetric] .
qed

theorem searchEntries_procedure_witness:
  "InMemoryStorage_searchEntries ex_toLowerCase ex_storage
      \<lparr>query = Some (js ''LL''), collectionId = Some (js ''c1''), tags = Some [js ''x''],
       limit = Some 1, offset = Some 0\<rparr> = [ex_entry1]
   \<and> spec_searchEntries ex_toLowerCase (mapValues (entries ex_storage))
      \<lparr>query = Some (js ''LL''), collectionId = Some (js ''c1''), tags = Some [js ''x''],
       limit = Some 1, offset = Some 0\<rparr> = [ex_entry1]
   \<and> InMemoryStorage_searchEntries ex_toLowerCase ex_storage
      \<lparr>query = Some (js ''CAF'' @ [0xC9]), collectionId = None, tags = None,
       limit = None, offset = None\<rparr> = [ex_entry2]"
proof -
  have s1: "spec_searchEntries ex_toLowerCase (mapValues (entries ex_storage))
      \<lparr>query = Some (js ''LL''), collectionId = Some (js ''c1''), tags = Some [js ''x''],
       limit = Some 1, offset = Some 0\<rparr> = [ex_entry1]"
    by code_simp
  have s2: "spec_searchEntries ex_toLowerCase (mapValues (entries ex_storage))
      \<lparr>query = Some (js ''CAF'' @ [0xC9]), collectionId = None, tags = None,
       limit = None, offset = None\<rparr> = [ex_entry2]"
    by code_simp
  show ?thesis
    using s1 s2
      searchEntries_procedure [of "\<lparr>query = Some (js ''LL''), collectionId = Some (js ''c1''),
        tags = Some [js ''x''], limit = Some 1, offset = Some 0\<rparr>" ex_toLowerCase ex_storage]
      searchEntries_procedure [of "\<lparr>query = Some (js ''CAF'' @ [0xC9]), collectionId = None,
        tags = None, limit = None, offset = None\<rparr>" ex_toLowerCase ex_storage]
    by simp
qed

subsection \<open>Tags\<close>

lemma indexOf_absent: "x \<notin> set xs \<Longrightarrow> indexOf xs x = - 1"
  by (induction xs) (auto simp: Let_def)

lemma indexOf_present: "x \<in> set xs \<Longrightarrow> 0 \<le> indexOf xs x \<and> indexOf xs x < int (length xs)"
  by (induction xs) (auto simp: Let_def)

lemma indexOf_append:
  "indexOf (ps @ ys) x =
     (if x \<in> set ps then indexOf ps x
      else if x \<in> set ys then int (length ps) + indexOf ys x else - 1)"
proof (induction ps)
  case Nil
  then show ?case by (simp add: indexOf_absent)
next
  case (Cons p ps)
  then show ?case
    using indexOf_present [of x ps] indexOf_present [of x ys]
    by (auto simp: Let_def)
qed

lemma indexOf_here: "indexOf (ps @ x # xs) x = int (length ps) \<longleftrightarrow> x \<notin> set ps"
  using indexOf_present [of x ps] by (auto simp: indexOf_append)

lemma firstOccurrences_seen_set:
  "set a = set b \<Longrightarrow> firstOccurrences a xs = firstOccurrences b xs"
proof (induction xs arbitrary: a b)
  case Nil
  then show ?case by simp
next
  case (Cons x xs)
  have "firstOccurrences (x # a) xs = firstOccurrences (x # b) xs"
    using Cons.prems by (intro Cons.IH) simp
  moreover have "firstOccurrences a xs = firstOccurrences b xs"
    using Cons.prems by (rule Cons.IH)
  ultimately show ?case using Cons.prems by simp
qed

lemma keep_first_index:
  "map snd (filter (\<lambda>(index, tag). indexOf (ps @ xs) tag = int index) (enumerate (length ps) xs))
     = firstOccurrences ps xs"
proof (induction xs arbitrary: ps)
  case Nil
  then show ?case by simp
next
  case (Cons x xs)
  have step: "map snd (filter (\<lambda>(index, tag). indexOf (ps @ x # xs) tag = int index)
                 (enumerate (Suc (length ps)) xs)) = firstOccurrences (ps @ [x]) xs"
    using Cons.IH [of "ps @ [x]"] by simp
  have seen: "firstOccurrences (ps @ [x]) xs = firstOccurrences (x # ps) xs"
    "x \<in> set ps \<Longrightarrow> firstOccurrences (x # ps) xs = firstOccurrences ps xs"
    by (rule firstOccurrences_seen_set; auto)+
  show ?case
    using step seen by (simp add: indexOf_here)
qed


lemma cleanTags_normal_form: "cleanTags ts = spec_normalizeTags ts"
proof -
  have "filter (\<lambda>tag. 0 < length tag) (map trim ts) = filter (\<lambda>t. t \<noteq> []) (map trim ts)"
    by simp
  then show ?thesis
    using keep_first_index [of "[]" "filter (\<lambda>t. t \<noteq> []) (map trim ts)"]
    by (simp add: cleanTags_def spec_normalizeTags_def Let_def)
qed

lemma firstOccurrences_set: "set (firstOccurrences seen xs) = set xs - set seen"
  by (induction xs arbitrary: seen) auto

lemma firstOccurrences_distinct: "distinct (firstOccurrences seen xs)"
  by (induction xs arbitrary: seen) (auto simp: firstOccurrences_set)

lemma dropWhile_fixed: "xs = [] \<or> \<not> P (hd xs) \<Longrightarrow> dropWhile P xs = xs"
  by (cases xs) auto

lemma trim_trim: "trim (trim s) = trim s"
proof -
  define a where "a = dropWhile isWhiteSpace s"
  define b where "b = dropWhile isWhiteSpace (rev a)"
  have t: "trim s = rev b" by (simp add: trim_def a_def b_def)
  have a_hd: "a = [] \<or> \<not> isWhiteSpace (hd a)"
    unfolding a_def using hd_dropWhile [of isWhiteSpace s] by blast
  have b_hd: "b = [] \<or> \<not> isWhiteSpace (hd b)"
    unfolding b_def using hd_dropWhile [of isWhiteSpace "rev a"] by blast
  obtain c where c: "rev a = c @ b"
    unfolding b_def by (metis takeWhile_dropWhile_id)
  have b_last: "b = [] \<or> \<not> isWhiteSpace (last b)"
  proof (cases "b = []")
    case False
    then have an: "a \<noteq> []" using c by auto
    have "last b = last (rev a)" using False c by simp
    also have "\<dots> = hd a" using an by (simp add: last_rev)
    finally show ?thesis using a_hd an by simp
  qed simp
  have "dropWhile isWhiteSpace (rev b) = rev b"
    using b_last by (intro dropWhile_fixed) (auto simp: hd_rev)
  moreover have "dropWhile isWhiteSpace b = b"
    using b_hd by (rule dropWhile_fixed)
  ultimately show ?thesis by (simp add: t) (simp add: trim_def)
qed

lemma spec_normalizeTags_invariant: "tagSetInvariant (spec_normalizeTags ts)"
  by (auto simp: tagSetInvariant_def spec_normalizeTags_def list_all_iff firstOccurrences_set
      firstOccurrences_distinct trim_trim)

text \<open>
  Claim C6, as stated, fails for the builders of \<open>Entry\<close>: \<open>updateTags\<close> installs
  the list it is given and \<open>addTag\<close> appends the tag it is given, neither trims nor
  drops anything. From an entry whose tags satisfy the invariant, \<open>updateTags\<close> with
  a repeated tag and \<open>addTag\<close> with an untrimmed tag give entries that break it.
\<close>

theorem entry_builders_counterexample:
  "tagSetInvariant (entry_tags ex_entry1)
   \<and> entry_tags (Entry_updateTags ex_entry1 [js ''x'', js ''x''] (js ''u'') 9000) = [js ''x'', js ''x'']
   \<and> \<not> tagSetInvariant (entry_tags (Entry_updateTags ex_entry1 [js ''x'', js ''x''] (js ''u'') 9000))
   \<and> entry_tags (Entry_addTag ex_entry1 (js '' z'') (js ''u'') 9000) = [js ''x'', js ''y'', js '' z'']
   \<and> \<not> tagSetInvariant (entry_tags (Entry_addTag ex_entry1 (js '' z'') (js ''u'') 9000))"
  by (simp add: Entry_updateTags_def Entry_addTag_def Entry_hasTag_def new_Entry_def
      tagSetInvariant_def trim_def isWhiteSpace_def ex_entry1_def js_def)

text \<open>
  Claim C6, amended. The tags of an entry returned by the engine's \<open>saveEntry\<close> or
  \<open>updateEntryTags\<close> are the normal form of the given tags (trimmed, empty ones dropped,
  first occurrences kept in order) and satisfy the tag-set invariant; saving with
  \<open>x, x, y\<close> yields \<open>x, y\<close>. The builders do not normalise: \<open>removeTag\<close> filters the
  tag out and preserves the invariant, \<open>addTag\<close> appends a tag that is not yet present
  as it is given and preserves the invariant when that tag is trimmed and not empty, and
  \<open>updateTags\<close> installs the given list as it is.
\<close>

theorem engine_tags_normalized:
  "(\<forall>e this'. VocaEngine_saveEntry this inputId suggestionId cid ts uuid now = (Inr e, this') \<longrightarrow>
       entry_tags e = (case ts of None \<Rightarrow> [] | Some l \<Rightarrow> spec_normalizeTags l)
       \<and> tagSetInvariant (entry_tags e))
   \<and> (\<forall>e this'. VocaEngine_updateEntryTags this entryId l uuid now = (Inr e, this') \<longrightarrow>
       entry_tags e = spec_normalizeTags l \<and> tagSetInvariant (entry_tags e))
   \<and> entry_tags (Entry_removeTag entry t uuid now) = filter (\<lambda>x. x \<noteq> t) (entry_tags entry)
   \<and> (tagSetInvariant (entry_tags entry) \<longrightarrow>
       tagSetInvariant (entry_tags (Entry_removeTag entry t uuid now)))
   \<and> entry_tags (Entry_addTag entry t uuid now) =
       (if t \<in> set (entry_tags entry) then entry_tags entry else entry_tags entry @ [t])
   \<and> (tagSetInvariant (entry_tags entry) \<and> trim t = t \<and> t \<noteq> [] \<longrightarrow>
       tagSetInvariant (entry_tags (Entry_addTag entry t uuid now)))
   \<and> entry_tags (Entry_updateTags entry l uuid now) = l
   \<and> cleanTags [js ''x'', js ''x'', js ''y''] = [js ''x'', js ''y'']"
proof (intro conjI allI impI)
  fix e this'
  assume "VocaEngine_saveEntry this inputId suggestionId cid ts uuid now = (Inr e, this')"
  then have "entry_tags e = (case ts of None \<Rightarrow> [] | Some l \<Rightarrow> spec_normalizeTags l)"
    by (auto simp: VocaEngine_saveEntry_def Let_def new_Entry_def cleanTags_normal_form
        split: option.splits if_splits)
  then show "entry_tags e = (case ts of None \<Rightarrow> [] | Some l \<Rightarrow> spec_normalizeTags l)"
    and "tagSetInvariant (entry_tags e)"
    by (simp_all add: spec_normalizeTags_invariant split: option.splits)
      (simp add: tagSetInvariant_def)
next
  fix e this'
  assume "VocaEngine_updateEntryTags this entryId l uuid now = (Inr e, this')"
  then have "entry_tags e = spec_normalizeTags l"
    by (auto simp: VocaEngine_updateEntryTags_def Let_def new_Entry_def cleanTags_normal_form
        split: option.splits)
  then show "entry_tags e = spec_normalizeTags l" and "tagSetInvariant (entry_tags e)"
    by (simp_all add: spec_normalizeTags_invariant)
next
  show "entry_tags (Entry_removeTag entry t uuid now) = filter (\<lambda>x. x \<noteq> t) (entry_tags entry)"
    by (simp add: Entry_removeTag_def new_Entry_def)
next
  assume "tagSetInvariant (entry_tags entry)"
  then show "tagSetInvariant (entry_tags (Entry_removeTag entry t uuid now))"
    by (auto simp: Entry_removeTag_def new_Entry_def tagSetInvariant_def list_all_iff)
next
  show "entry_tags (Entry_addTag entry t uuid now) =
       (if t \<in> set (entry_tags entry) then entry_tags entry else entry_tags entry @ [t])"
    by (simp add: Entry_addTag_def Entry_hasTag_def new_Entry_def)
next
  assume "tagSetInvariant (entry_tags entry) \<and> trim t = t \<and> t \<noteq> []"
  then show "tagSetInvariant (entry_tags (Entry_addTag entry t uuid now))"
    by (auto simp: Entry_addTag_def Entry_hasTag_def new_Entry_def tagSetInvariant_def list_all_iff)
next
  show "entry_tags (Entry_updateTags entry l uuid now) = l"
    by (simp add: Entry_updateTags_def new_Entry_def)
next
  show "cleanTags [js ''x'', js ''x'', js ''y''] = [js ''x'', js ''y'']"
    by (simp add: cleanTags_normal_form spec_normalizeTags_def trim_def isWhiteSpace_def js_def)
qed

theorem engine_tags_normalized_witness:
  "(\<exists>e this'. VocaEngine_saveEntry ex_engine (js ''i1'') (js ''s1'') (js ''c1'')
         (Some [[0x00A0] @ js ''x'', js ''x '', [0x00A0, 0x0020], js ''y'', js ''x'']) (js ''u'') 9000
       = (Inr e, this')
     \<and> entry_tags e = [js ''x'', js ''y''] \<and> tagSetInvariant (entry_tags e))
   \<and> tagSetInvariant (entry_tags ex_entry1)
   \<and> tagSetInvariant (entry_tags (Entry_removeTag ex_entry1 (js ''x'') (js ''u'') 9000))
   \<and> trim (js ''z'') = js ''z''
   \<and> tagSetInvariant (entry_tags (Entry_addTag ex_entry1 (js ''z'') (js ''u'') 9000))"
proof -
  have s: "fst (VocaEngine_saveEntry ex_engine (js ''i1'') (js ''s1'') (js ''c1'')
         (Some [[0x00A0] @ js ''x'', js ''x '', [0x00A0, 0x0020], js ''y'', js ''x'']) (js ''u'') 9000)
      = Inr (new_Entry (InputObject ex_input1) (SuggestionObject ex_suggestion1) (js ''c1'')
               (Some (cleanTags [[0x00A0] @ js ''x'', js ''x '', [0x00A0, 0x0020], js ''y'', js ''x''])) None (js ''u'') 9000)"
    by (simp add: VocaEngine_saveEntry_def InMemoryStorage_getInput_def
        InMemoryStorage_getSuggestion_def InMemoryStorage_getCollection_def ex_engine_def
        ex_storage_def ex_suggestion1_def Let_def)
  have n: "spec_normalizeTags [[0x00A0] @ js ''x'', js ''x '', [0x00A0, 0x0020], js ''y'', js ''x''] = [js ''x'', js ''y'']"
    by (simp add: spec_normalizeTags_def trim_def isWhiteSpace_def js_def)
  have i: "tagSetInvariant (entry_tags ex_entry1)"
    by (simp add: tagSetInvariant_def trim_def isWhiteSpace_def ex_entry1_def js_def)
  have z: "trim (js ''z'') = js ''z''"
    by (simp add: trim_def isWhiteSpace_def js_def)
  show ?thesis
    using s n i z
      engine_tags_normalized [of ex_engine "js ''i1''" "js ''s1''" "js ''c1''" "Some [[0x00A0] @ js ''x'', js ''x '', [0x00A0, 0x0020], js ''y'', js ''x'']"
        "js ''u''" 9000 "js ''e1''" "[]" ex_entry1 "js ''x''"]
      engine_tags_normalized [of ex_engine "js ''i1''" "js ''s1''" "js ''c1''" "Some [[0x00A0] @ js ''x'', js ''x '', [0x00A0, 0x0020], js ''y'', js ''x'']"
        "js ''u''" 9000 "js ''e1''" "[]" ex_entry1 "js ''z''"]
    by (cases "VocaEngine_saveEntry ex_engine (js ''i1'') (js ''s1'') (js ''c1'')
         (Some [[0x00A0] @ js ''x'', js ''x '', [0x00A0, 0x0020], js ''y'', js ''x'']) (js ''u'') 9000")
      auto
qed

subsection \<open>Renaming a collection\<close>

lemma updateCollection_preserves:
  assumes "InMemoryStorage_getCollection st i = Some existing"
  shows "\<exists>c st'. InMemoryStorage_updateCollection st i updates = (Inr c, st')
           \<and> col_id c = col_id existing \<and> col_createdAt c = col_createdAt existing
           \<and> col_name c = (case p_name updates of None \<Rightarrow> col_name existing | Some n \<Rightarrow> n)
           \<and> InMemoryStorage_getCollection st' i = Some c"
  using assms
  by (simp add: InMemoryStorage_updateCollection_def InMemoryStorage_getCollection_def Let_def
      update_conv')

lemma renameCollection_preserves:
  assumes "InMemoryStorage_getCollection (storage this) cid = Some existing"
    and "trim newName \<noteq> []"
  shows "\<exists>c this'. VocaEngine_renameCollection this cid newName = (Inr c, this')
           \<and> col_id c = col_id existing \<and> col_createdAt c = col_createdAt existing
           \<and> col_name c = trim newName"
proof -
  have n: "newName \<noteq> []" using assms(2) by (auto simp: trim_def)
  obtain c st' where u: "InMemoryStorage_updateCollection (storage this) cid
        \<lparr>p_id = None, p_name = Some (trim newName), p_createdAt = None\<rparr> = (Inr c, st')"
      "col_id c = col_id existing" "col_createdAt c = col_createdAt existing"
      "col_name c = trim newName"
    using updateCollection_preserves [OF assms(1),
        of "\<lparr>p_id = None, p_name = Some (trim newName), p_createdAt = None\<rparr>"]
    by auto
  show ?thesis
    using assms n u by (simp add: VocaEngine_renameCollection_def)
qed

lemma Collection_rename_fields:
  "col_name (Collection_rename this newName uuid now) = newName
   \<and> col_createdAt (Collection_rename this newName uuid now) = now
   \<and> (col_id this \<noteq> [] \<longrightarrow> col_id (Collection_rename this newName uuid now) = col_id this)"
  by (simp add: Collection_rename_def new_Collection_def idOr_def)

text \<open>
  Claim C5. Renaming keeps the id and \<open>createdAt\<close> of a collection. The store's
  \<open>updateCollection\<close> and the engine's \<open>renameCollection\<close> do so (the two lemmas
  above), but the \<open>rename\<close> builder of \<open>Collection\<close> constructs a new collection,
  whose \<open>createdAt\<close> is the time of the call: renaming at time 9000 a collection
  created at time 500 gives a collection created at 9000.
\<close>

theorem Collection_rename_resets_createdAt:
  "col_createdAt ex_collection = 500
   \<and> col_id (Collection_rename ex_collection (js ''Renamed'') (js ''u'') 9000) = col_id ex_collection
   \<and> col_createdAt (Collection_rename ex_collection (js ''Renamed'') (js ''u'') 9000) = 9000
   \<and> col_createdAt (Collection_rename ex_collection (js ''Renamed'') (js ''u'') 9000)
       \<noteq> col_createdAt ex_collection"
  by (simp add: Collection_rename_def new_Collection_def idOr_def ex_collection_def)

subsection \<open>Dates written and read back\<close>































subsection \<open>Serialization\<close>



text \<open>A constructor that draws a non-empty identifier builds a record with a non-empty id.\<close>

lemma idOr_nonempty: "uuid \<noteq> [] \<Longrightarrow> idOr i uuid \<noteq> []"
  by (simp add: idOr_def split: option.splits)

lemma constructors_wellformed:
  assumes "uuid \<noteq> []"
  shows "input_id (new_ExpressionInput ty content i uuid now) \<noteq> []"
    and "sug_id (new_Suggestion inputId candidates i uuid now) \<noteq> []"
    and "col_id (new_Collection name i uuid now) \<noteq> []"
    and "entry_id (new_Entry input suggestion cid ts i uuid now) \<noteq> []"
  using assms
  by (simp_all add: new_ExpressionInput_def new_Suggestion_def new_Collection_def new_Entry_def
      idOr_nonempty)




end
